theory Spec2Isabelle
  imports Main "HOL-Library.Multiset"
begin

section \<open>Data model (models.py, config.py)\<close>

text \<open>
  The embedding follows the Python sources function by function. Clock readings
  (\<^verbatim>\<open>time.time()\<close>, \<^verbatim>\<open>datetime.now\<close>), log lines and the fields that none of the modelled
  functions reads are left out of the records. A raised Python exception (an instance of
  \<^verbatim>\<open>Exception\<close>, which is what every \<^verbatim>\<open>except Exception\<close> clause of the sources
  catches) is a value: its class name \<^verbatim>\<open>type(e).__name__\<close> and its message \<^verbatim>\<open>str(e)\<close>.
\<close>

datatype exn = Exn (exn_class: string) (exn_msg: string)

datatype DownloadStatus =
  PENDING | EXTRACTING | DOWNLOADING | RENDERING | COMPLETED | FAILED | CANCELLED

record Config =
  MAX_CONCURRENT_DOWNLOADS :: int
  MAX_QUALITY_DIRECT :: int

record DownloadRequest =
  url :: string
  quality :: int
  format :: string
  include_audio :: bool
  include_subtitles :: bool
  subtitle_languages :: "string list"
  download_thumbnail :: bool
  custom_filename :: "string option"

record VideoMetadata =
  video_id :: string
  title :: string
  webpage_url :: string

record PlaylistMetadata =
  playlist_title :: string
  videos :: "VideoMetadata list"

record PlaylistRequest =
  pl_url :: string
  pl_quality :: int
  pl_format :: string
  pl_include_audio :: bool
  pl_include_subtitles :: bool
  pl_subtitle_languages :: "string list"
  pl_download_thumbnail :: bool
  download_all :: bool
  selected_videos :: "int list"
  start_index :: "int option"
  end_index :: "int option"
  max_downloads :: "int option"

record BatchRequest =
  urls :: "string list"
  b_quality :: int
  b_format :: string
  b_include_audio :: bool
  b_include_subtitles :: bool
  b_subtitle_languages :: "string list"
  b_download_thumbnail :: bool
  continue_on_error :: bool
  max_concurrent :: "int option"

record DownloadResult =
  task_id :: string
  status :: DownloadStatus
  video_file :: "string option"
  filesize :: "int option"
  error :: "string option"
  error_type :: "string option"

record BatchResult =
  batch_id :: string
  total_videos :: nat
  successful_downloads :: nat
  failed_downloads :: nat
  results :: "DownloadResult list"
  total_filesize :: "int option"

record PlaylistResult =
  playlist_id :: string
  playlist_metadata :: "PlaylistMetadata option"
  p_total_videos :: nat
  p_successful_downloads :: nat
  p_failed_downloads :: nat
  p_results :: "DownloadResult list"
  p_total_filesize :: "int option"

text \<open>
  The field constraints pydantic checks when a \<^verbatim>\<open>BatchRequest\<close> is built:
  \<^verbatim>\<open>urls: Field(min_items=1, max_items=50)\<close>, \<^verbatim>\<open>quality: Field(ge=144, le=2160)\<close>,
  \<^verbatim>\<open>format: Field(pattern="^(mp4|webm|mkv)$")\<close>. The field
  \<^verbatim>\<open>max_concurrent: Optional[int] = None\<close> carries no constraint. The syntax of
  each URL is not modelled.
\<close>

definition BatchRequest_valid :: "BatchRequest \<Rightarrow> bool" where
  "BatchRequest_valid r =
     (1 \<le> length (urls r) \<and> length (urls r) \<le> 50 \<and>
      144 \<le> b_quality r \<and> b_quality r \<le> 2160 \<and>
      (b_format r = ''mp4'' \<or> b_format r = ''webm'' \<or> b_format r = ''mkv''))"

section \<open>Routing strategy (yt\_process.py, config.py)\<close>

datatype ProcessorType = PYTUBE | YTDLP

definition is_quality_direct_download :: "Config \<Rightarrow> int \<Rightarrow> bool" where
  "is_quality_direct_download config q = (q \<le> MAX_QUALITY_DIRECT config)"

definition determine_processor :: "Config \<Rightarrow> int \<Rightarrow> string \<Rightarrow> ProcessorType" where
  "determine_processor config q operation =
     (if operation \<in> set [''metadata'', ''extract'', ''info''] then YTDLP
      else if operation \<in> set [''download'', ''stream'']
        then (if is_quality_direct_download config q then PYTUBE else YTDLP)
      else if operation \<in> set [''subtitles'', ''thumbnail'', ''captions''] then YTDLP
      else YTDLP)"

definition requires_rendering :: "Config \<Rightarrow> int \<Rightarrow> bool" where
  "requires_rendering config q = (\<not> is_quality_direct_download config q)"

text \<open>
  The three handler calls \<^verbatim>\<open>YouTubeProcessor.download_video\<close> chooses between; the
  handlers themselves are external collaborators and come in as functions that return
  a result or raise.
\<close>

record Handlers =
  pytube_download_video :: "DownloadRequest \<Rightarrow> exn + DownloadResult"
  ytdlp_download_and_render :: "DownloadRequest \<Rightarrow> exn + DownloadResult"
  ytdlp_download_video :: "DownloadRequest \<Rightarrow> exn + DownloadResult"

definition download_video ::
  "Config \<Rightarrow> Handlers \<Rightarrow> DownloadRequest \<Rightarrow> exn + DownloadResult" where
  "download_video config h request =
     (let processor_type = determine_processor config (quality request) ''download'' in
      if processor_type = PYTUBE then pytube_download_video h request
      else if requires_rendering config (quality request)
        then ytdlp_download_and_render h request
      else ytdlp_download_video h request)"

section \<open>Playlist selection (download.py, yt\_process.py)\<close>

text \<open>
  Python's \<^verbatim>\<open>xs[start:]\<close> and \<^verbatim>\<open>xs[:stop]\<close>: a negative bound counts from the end
  of the list, and every bound is clamped to the list.
\<close>

definition slice_from :: "'a list \<Rightarrow> int \<Rightarrow> 'a list" where
  "slice_from xs start =
     (let n = int (length xs);
          s = (if start < 0 then max 0 (n + start) else min start n)
      in drop (nat s) xs)"

definition slice_to :: "'a list \<Rightarrow> int \<Rightarrow> 'a list" where
  "slice_to xs stop =
     (let n = int (length xs);
          e = (if stop < 0 then max 0 (n + stop) else min stop n)
      in take (nat e) xs)"

text \<open>The loop over \<^verbatim>\<open>request.selected_videos\<close>, which skips an index out of range.\<close>

fun pick_indices :: "'a list \<Rightarrow> int list \<Rightarrow> 'a list" where
  "pick_indices vs [] = []"
| "pick_indices vs (i # is) =
     (if 0 \<le> i \<and> i < int (length vs) then (vs ! nat i) # pick_indices vs is
      else pick_indices vs is)"

text \<open>
  \<^verbatim>\<open>_select_playlist_videos\<close>; download.py and yt\_process.py hold the same body.
\<close>

definition select_playlist_videos ::
  "PlaylistMetadata \<Rightarrow> PlaylistRequest \<Rightarrow> VideoMetadata list" where
  "select_playlist_videos playlist request =
     (let selected0 = (if download_all request then videos playlist
                       else pick_indices (videos playlist) (selected_videos request));
          selected1 = (case start_index request of
                         None \<Rightarrow> selected0
                       | Some si \<Rightarrow> slice_from selected0 (max 0 si));
          selected2 = (case end_index request of
                         None \<Rightarrow> selected1
                       | Some ei \<Rightarrow> slice_to selected1 (min (int (length selected1)) (ei + 1)));
          selected3 = (case max_downloads request of
                         None \<Rightarrow> selected2
                       | Some md \<Rightarrow> slice_to selected2 md)
      in selected3)"

text \<open>
  The selection policy as the specification words it, for comparison with the code:
  the explicit selection, then the window of the positions from the start index to the
  end index (end inclusive) of that selected list, then the truncation to at most the
  maximum count.
\<close>

fun window_from :: "int \<Rightarrow> int option \<Rightarrow> int option \<Rightarrow> 'a list \<Rightarrow> 'a list" where
  "window_from p lo hi [] = []"
| "window_from p lo hi (x # xs) =
     (if (case lo of None \<Rightarrow> True | Some l \<Rightarrow> l \<le> p) \<and>
         (case hi of None \<Rightarrow> True | Some h \<Rightarrow> p \<le> h)
      then x # window_from (p + 1) lo hi xs
      else window_from (p + 1) lo hi xs)"

definition select_playlist_videos_spec ::
  "PlaylistMetadata \<Rightarrow> PlaylistRequest \<Rightarrow> VideoMetadata list" where
  "select_playlist_videos_spec playlist request =
     (let selected = (if download_all request then videos playlist
                      else pick_indices (videos playlist) (selected_videos request));
          windowed = window_from 0 (start_index request) (end_index request) selected
      in case max_downloads request of
           None \<Rightarrow> windowed
         | Some md \<Rightarrow> take (nat md) windowed)"

section \<open>Bounded batch executor (download.py)\<close>

text \<open>Python's \<^verbatim>\<open>str\<close> of a list index, for \<^verbatim>\<open>f"{task_id}_video_{index}"\<close>.\<close>

definition digit :: "nat \<Rightarrow> char" where
  "digit d =
     (if d = 0 then CHR ''0'' else if d = 1 then CHR ''1'' else if d = 2 then CHR ''2''
      else if d = 3 then CHR ''3'' else if d = 4 then CHR ''4'' else if d = 5 then CHR ''5''
      else if d = 6 then CHR ''6'' else if d = 7 then CHR ''7'' else if d = 8 then CHR ''8''
      else CHR ''9'')"

fun str_nat :: "nat \<Rightarrow> string" where
  "str_nat n = (if n < 10 then [digit n] else str_nat (n div 10) @ [digit (n mod 10)])"

declare str_nat.simps [simp del]

text \<open>
  \<^verbatim>\<open>max_concurrent = max_concurrent or config.MAX_CONCURRENT_DOWNLOADS\<close>: Python's
  \<^verbatim>\<open>or\<close> takes the right operand when the left one is \<^verbatim>\<open>None\<close> or \<^verbatim>\<open>0\<close>.
\<close>

definition max_concurrent_or_default :: "Config \<Rightarrow> int option \<Rightarrow> int" where
  "max_concurrent_or_default config mc =
     (case mc of
        None \<Rightarrow> MAX_CONCURRENT_DOWNLOADS config
      | Some k \<Rightarrow> if k = 0 then MAX_CONCURRENT_DOWNLOADS config else k)"

text \<open>\<^verbatim>\<open>asyncio.Semaphore(value)\<close> raises \<^verbatim>\<open>ValueError\<close> on a negative value.\<close>

definition Semaphore :: "int \<Rightarrow> exn + nat" where
  "Semaphore v =
     (if v < 0 then Inl (Exn ''ValueError'' ''Semaphore initial value must be >= 0'')
      else Inr (nat v))"

text \<open>
  The body of \<^verbatim>\<open>download_with_semaphore\<close> under \<^verbatim>\<open>async with semaphore\<close>: the
  processor's result, or the failure result built in the \<^verbatim>\<open>except Exception\<close>
  branch. \<open>proc\<close> is \<^verbatim>\<open>self.processor.download_video\<close>.
\<close>

definition download_with_semaphore ::
  "(DownloadRequest \<Rightarrow> exn + DownloadResult) \<Rightarrow> string \<Rightarrow> DownloadRequest \<Rightarrow> nat
     \<Rightarrow> DownloadResult" where
  "download_with_semaphore proc tid request index =
     (case proc request of
        Inr r \<Rightarrow> r
      | Inl e \<Rightarrow>
          \<lparr>task_id = tid @ ''_video_'' @ str_nat index, status = FAILED,
           video_file = None, filesize = None,
           error = Some (exn_msg e), error_type = Some (exn_class e)\<rparr>)"

text \<open>
  The event loop running the item coroutines. Every coroutine first waits at
  \<^verbatim>\<open>async with semaphore\<close>; \<open>Acquire i\<close> admits item \<open>i\<close> when the semaphore's
  value is positive and lowers the value; \<open>Complete i\<close> is the return of item \<open>i\<close>'s
  body, which releases the semaphore and hands the result to the
  \<^verbatim>\<open>asyncio.as_completed\<close> loop, so \<open>completed\<close> is the order in which
  \<^verbatim>\<open>results.append(result)\<close> runs. A schedule is the list of events the loop
  happens to run; an event that is not enabled makes the schedule impossible (\<open>None\<close>).
\<close>

datatype event = Acquire nat | Complete nat

record exec_state =
  waiting :: "nat list"
  running :: "nat list"
  completed :: "nat list"
  sem_value :: nat

fun exec_step :: "event \<Rightarrow> exec_state \<Rightarrow> exec_state option" where
  "exec_step (Acquire i) s =
     (if i \<in> set (waiting s) \<and> 0 < sem_value s
      then Some (s\<lparr>waiting := remove1 i (waiting s), running := i # running s,
                  sem_value := sem_value s - 1\<rparr>)
      else None)"
| "exec_step (Complete i) s =
     (if i \<in> set (running s)
      then Some (s\<lparr>running := remove1 i (running s), completed := completed s @ [i],
                  sem_value := sem_value s + 1\<rparr>)
      else None)"

fun exec_run :: "event list \<Rightarrow> exec_state \<Rightarrow> exec_state option" where
  "exec_run [] s = Some s"
| "exec_run (e # es) s =
     (case exec_step e s of None \<Rightarrow> None | Some s' \<Rightarrow> exec_run es s')"

definition exec_init :: "nat \<Rightarrow> nat \<Rightarrow> exec_state" where
  "exec_init n k = \<lparr>waiting = [0..<n], running = [], completed = [], sem_value = k\<rparr>"

definition exec_finished :: "exec_state \<Rightarrow> bool" where
  "exec_finished s = (waiting s = [] \<and> running s = [])"

text \<open>
  What every step of the loop keeps: each of the \<open>n\<close> items is waiting, running or
  completed, exactly once, and the semaphore's value plus the number of running items is
  the limit \<open>k\<close>.
\<close>

definition exec_inv :: "nat \<Rightarrow> nat \<Rightarrow> exec_state \<Rightarrow> bool" where
  "exec_inv n k s =
     (mset (waiting s) + mset (running s) + mset (completed s) = mset [0..<n] \<and>
      sem_value s + length (running s) = k)"


text \<open>
  \<^verbatim>\<open>_download_requests_with_isolation\<close>. The outer \<open>None\<close> is not a behaviour of the
  program: it marks a schedule that the event loop cannot run or that stops before
  every item has returned. \<open>Some (Inl e)\<close> is the exception raised before any item
  starts, \<open>Some (Inr rs)\<close> the returned list.
\<close>

definition download_requests_with_isolation ::
  "Config \<Rightarrow> (DownloadRequest \<Rightarrow> exn + DownloadResult) \<Rightarrow> DownloadRequest list \<Rightarrow> string
     \<Rightarrow> int option \<Rightarrow> event list \<Rightarrow> (exn + DownloadResult list) option" where
  "download_requests_with_isolation config proc requests tid mc schedule =
     (case Semaphore (max_concurrent_or_default config mc) of
        Inl e \<Rightarrow> Some (Inl e)
      | Inr k \<Rightarrow>
          (case exec_run schedule (exec_init (length requests) k) of
             None \<Rightarrow> None
           | Some s \<Rightarrow>
               if exec_finished s
               then Some (Inr (map (\<lambda>i. download_with_semaphore proc tid (requests ! i) i)
                                   (completed s)))
               else None))"

definition filesize_or_0 :: "DownloadResult \<Rightarrow> int" where
  "filesize_or_0 r = (case filesize r of None \<Rightarrow> 0 | Some n \<Rightarrow> n)"

text \<open>
  \<^verbatim>\<open>_execute_batch_download\<close>: the \<^verbatim>\<open>BatchResult\<close> it builds, stores under the task
  id and returns, from the \<^verbatim>\<open>try\<close> body or from the \<^verbatim>\<open>except Exception\<close> branch.
\<close>

definition batch_video_requests :: "BatchRequest \<Rightarrow> DownloadRequest list" where
  "batch_video_requests request =
     map (\<lambda>u. \<lparr>url = u, quality = b_quality request, format = b_format request,
               include_audio = b_include_audio request,
               include_subtitles = b_include_subtitles request,
               subtitle_languages = b_subtitle_languages request,
               download_thumbnail = b_download_thumbnail request,
               custom_filename = None\<rparr>) (urls request)"

definition execute_batch_download ::
  "Config \<Rightarrow> (DownloadRequest \<Rightarrow> exn + DownloadResult) \<Rightarrow> string \<Rightarrow> BatchRequest
     \<Rightarrow> event list \<Rightarrow> BatchResult option" where
  "execute_batch_download config proc tid request schedule =
     (case download_requests_with_isolation config proc (batch_video_requests request) tid
             (max_concurrent request) schedule of
        None \<Rightarrow> None
      | Some (Inl e) \<Rightarrow>
          Some \<lparr>batch_id = tid, total_videos = length (urls request),
                successful_downloads = 0, failed_downloads = 0, results = [],
                total_filesize = None\<rparr>
      | Some (Inr rs) \<Rightarrow>
          (let successful_results = filter (\<lambda>r. status r = COMPLETED) rs;
               failed_results = filter (\<lambda>r. status r \<noteq> COMPLETED) rs
           in Some \<lparr>batch_id = tid, total_videos = length (urls request),
                     successful_downloads = length successful_results,
                     failed_downloads = length failed_results, results = rs,
                     total_filesize = Some (sum_list (map filesize_or_0 successful_results))\<rparr>))"





section \<open>Processor-level batch download (yt\_process.py)\<close>

text \<open>\<^verbatim>\<open>_download_with_error_isolation\<close>.\<close>

definition download_with_error_isolation ::
  "(DownloadRequest \<Rightarrow> exn + DownloadResult) \<Rightarrow> DownloadRequest \<Rightarrow> string \<Rightarrow> DownloadResult" where
  "download_with_error_isolation proc request tid =
     (case proc request of
        Inr r \<Rightarrow> r
      | Inl e \<Rightarrow>
          \<lparr>task_id = tid, status = FAILED, video_file = None, filesize = None,
           error = Some (exn_msg e), error_type = Some (exn_class e)\<rparr>)"



text \<open>
  The event loop of \<^verbatim>\<open>download_batch\<close>. Each download is wrapped in
  \<^verbatim>\<open>asyncio.create_task\<close> when the request list is built, which schedules it at
  once: \<open>TaskStart i\<close> needs nothing but that task \<open>i\<close> has not started. The semaphore is
  taken by \<^verbatim>\<open>limited_download\<close>, which only awaits the task that already exists:
  \<open>WrapperAcquire i\<close> needs a positive value, \<open>WrapperRelease i\<close> needs task \<open>i\<close> to have
  finished.
\<close>

datatype gather_event =
  TaskStart nat | TaskFinish nat | WrapperAcquire nat | WrapperRelease nat

record gather_state =
  scheduled :: "nat list"
  active :: "nat list"
  finished :: "nat list"
  wrapper_waiting :: "nat list"
  wrapper_holding :: "nat list"
  g_sem_value :: nat

fun gather_step :: "gather_event \<Rightarrow> gather_state \<Rightarrow> gather_state option" where
  "gather_step (TaskStart i) s =
     (if i \<in> set (scheduled s)
      then Some (s\<lparr>scheduled := remove1 i (scheduled s), active := i # active s\<rparr>)
      else None)"
| "gather_step (TaskFinish i) s =
     (if i \<in> set (active s)
      then Some (s\<lparr>active := remove1 i (active s), finished := i # finished s\<rparr>)
      else None)"
| "gather_step (WrapperAcquire i) s =
     (if i \<in> set (wrapper_waiting s) \<and> 0 < g_sem_value s
      then Some (s\<lparr>wrapper_waiting := remove1 i (wrapper_waiting s),
                  wrapper_holding := i # wrapper_holding s,
                  g_sem_value := g_sem_value s - 1\<rparr>)
      else None)"
| "gather_step (WrapperRelease i) s =
     (if i \<in> set (wrapper_holding s) \<and> i \<in> set (finished s)
      then Some (s\<lparr>wrapper_holding := remove1 i (wrapper_holding s),
                  g_sem_value := g_sem_value s + 1\<rparr>)
      else None)"

fun gather_run :: "gather_event list \<Rightarrow> gather_state \<Rightarrow> gather_state option" where
  "gather_run [] s = Some s"
| "gather_run (e # es) s =
     (case gather_step e s of None \<Rightarrow> None | Some s' \<Rightarrow> gather_run es s')"

definition gather_init :: "nat \<Rightarrow> nat \<Rightarrow> gather_state" where
  "gather_init n k =
     \<lparr>scheduled = [0..<n], active = [], finished = [], wrapper_waiting = [0..<n],
      wrapper_holding = [], g_sem_value = k\<rparr>"

section \<open>Broadcast hub (websocket.py)\<close>

record DownloadProgress =
  progress_task_id :: string
  progress_status :: DownloadStatus
  progress_percentage :: int
  current_step :: string

datatype payload =
  ProgressData DownloadProgress
| StatusData string "(string \<times> string) list"
| SubscriptionData string

record WebSocketMessage =
  msg_type :: string
  msg_task_id :: "string option"
  msg_data :: payload

text \<open>
  The \<^verbatim>\<open>ConnectionManager\<close>. A connection is named by a number. \<open>sent\<close> is not a
  field of the Python object: it records, per connection and in call order, the messages
  handed to \<^verbatim>\<open>websocket.send_text\<close>, so that delivery can be stated.
\<close>

record ConnectionManager =
  active_connections :: "nat set"
  task_subscribers :: "string \<rightharpoonup> nat set"
  connection_count :: nat
  sent :: "nat \<Rightarrow> WebSocketMessage list"

definition disconnect :: "ConnectionManager \<Rightarrow> nat \<Rightarrow> ConnectionManager" where
  "disconnect m ws =
     (if ws \<in> active_connections m
      then m\<lparr>active_connections := active_connections m - {ws},
             task_subscribers := (\<lambda>t. map_option (\<lambda>subscribers. subscribers - {ws})
                                          (task_subscribers m t))\<rparr>
      else m)"

text \<open>
  \<^verbatim>\<open>send_message\<close>: \<open>send_ok ws\<close> tells whether \<^verbatim>\<open>websocket.send_text\<close> returns for
  this connection; when it raises, either \<^verbatim>\<open>except\<close> branch disconnects the connection.
\<close>

definition send_message ::
  "(nat \<Rightarrow> bool) \<Rightarrow> ConnectionManager \<Rightarrow> nat \<Rightarrow> WebSocketMessage \<Rightarrow> ConnectionManager" where
  "send_message send_ok m ws message =
     (let m' = m\<lparr>sent := (sent m)(ws := sent m ws @ [message])\<rparr>
      in if send_ok ws then m' else disconnect m' ws)"

text \<open>
  \<^verbatim>\<open>_broadcast_to_connections\<close>: one \<^verbatim>\<open>send_message\<close> per element of
  \<^verbatim>\<open>list(connections)\<close>, the copy of the set taken before any send.
\<close>

definition broadcast_to_connections ::
  "(nat \<Rightarrow> bool) \<Rightarrow> ConnectionManager \<Rightarrow> nat set \<Rightarrow> WebSocketMessage \<Rightarrow> ConnectionManager" where
  "broadcast_to_connections send_ok m connections message =
     (if connections = {} then m
      else fold (\<lambda>ws m'. send_message send_ok m' ws message)
             (sorted_list_of_set connections) m)"

definition subscribers_of :: "ConnectionManager \<Rightarrow> string \<Rightarrow> nat set" where
  "subscribers_of m tid = (case task_subscribers m tid of None \<Rightarrow> {} | Some s \<Rightarrow> s)"



definition broadcast_status ::
  "(nat \<Rightarrow> bool) \<Rightarrow> ConnectionManager \<Rightarrow> string \<Rightarrow> string \<Rightarrow> (string \<times> string) list
     \<Rightarrow> ConnectionManager" where
  "broadcast_status send_ok m tid st data =
     (let subscribers = subscribers_of m tid in
      if subscribers = {} then m
      else broadcast_to_connections send_ok m subscribers
             \<lparr>msg_type = ''status'', msg_task_id = Some tid, msg_data = StatusData st data\<rparr>)"

definition subscribe_to_task ::
  "(nat \<Rightarrow> bool) \<Rightarrow> ConnectionManager \<Rightarrow> nat \<Rightarrow> string \<Rightarrow> ConnectionManager" where
  "subscribe_to_task send_ok m ws tid =
     send_message send_ok
       (m\<lparr>task_subscribers := (task_subscribers m)(tid \<mapsto> insert ws (subscribers_of m tid))\<rparr>)
       ws
       \<lparr>msg_type = ''subscription'', msg_task_id = Some tid, msg_data = SubscriptionData tid\<rparr>"

definition unsubscribe_from_task :: "ConnectionManager \<Rightarrow> nat \<Rightarrow> string \<Rightarrow> ConnectionManager" where
  "unsubscribe_from_task m ws tid =
     (case task_subscribers m tid of
        None \<Rightarrow> m
      | Some subscribers \<Rightarrow>
          if subscribers - {ws} = {}
          then m\<lparr>task_subscribers := (task_subscribers m)(tid := None)\<rparr>
          else m\<lparr>task_subscribers := (task_subscribers m)(tid \<mapsto> subscribers - {ws})\<rparr>)"


section \<open>Task orchestrator (download.py)\<close>

text \<open>
  An \<^verbatim>\<open>asyncio.Task\<close> handle as the orchestrator reads it: \<^verbatim>\<open>task.done()\<close>,
  \<^verbatim>\<open>task.cancelled()\<close>, and the cancellation request \<^verbatim>\<open>task.cancel()\<close> leaves.
\<close>

record TaskHandle =
  task_done :: bool
  task_cancelled :: bool
  cancel_requested :: bool

datatype TaskResult =
  SingleResult DownloadResult | BatchResultOf BatchResult | PlaylistResultOf PlaylistResult

record DownloadOrchestrator =
  active_tasks :: "string \<rightharpoonup> TaskHandle"
  task_results :: "string \<rightharpoonup> TaskResult"

text \<open>The dictionary \<^verbatim>\<open>get_task_status\<close> returns; an absent key is \<open>None\<close>.\<close>

record TaskStatus =
  st_task_id :: string
  st_status :: string
  st_done :: bool
  st_cancelled :: "bool option"
  st_result :: "TaskResult option"

definition get_task_status :: "DownloadOrchestrator \<Rightarrow> string \<Rightarrow> TaskStatus option" where
  "get_task_status orch tid =
     (case active_tasks orch tid of
        Some task \<Rightarrow>
          Some \<lparr>st_task_id = tid,
                st_status = (if \<not> task_done task then ''running'' else ''completed''),
                st_done = task_done task, st_cancelled = Some (task_cancelled task),
                st_result = None\<rparr>
      | None \<Rightarrow>
          (case task_results orch tid of
             Some result \<Rightarrow>
               Some \<lparr>st_task_id = tid, st_status = ''completed'', st_done = True,
                     st_cancelled = None, st_result = Some result\<rparr>
           | None \<Rightarrow> None))"

definition cancel_task ::
  "(nat \<Rightarrow> bool) \<Rightarrow> DownloadOrchestrator \<Rightarrow> ConnectionManager \<Rightarrow> string
     \<Rightarrow> bool \<times> DownloadOrchestrator \<times> ConnectionManager" where
  "cancel_task send_ok orch hub tid =
     (case active_tasks orch tid of
        Some task \<Rightarrow>
          if \<not> task_done task
          then (True,
                orch\<lparr>active_tasks := (active_tasks orch)(tid \<mapsto> task\<lparr>cancel_requested := True\<rparr>)\<rparr>,
                broadcast_status send_ok hub tid ''cancelled''
                  [(''message'', ''Task cancelled by user'')])
          else (False, orch, hub)
      | None \<Rightarrow> (False, orch, hub))"

definition cleanup_completed_tasks :: "DownloadOrchestrator \<Rightarrow> DownloadOrchestrator" where
  "cleanup_completed_tasks orch =
     orch\<lparr>active_tasks :=
            (\<lambda>tid. case active_tasks orch tid of
                     None \<Rightarrow> None
                   | Some task \<Rightarrow> if task_done task then None else Some task)\<rparr>"

text \<open>
  \<^verbatim>\<open>start_single_download\<close> registers the handle of the task it creates under the
  generated id \<open>tid\<close>. \<^verbatim>\<open>_execute_single_download\<close> is the task's body: it builds the
  result in the \<^verbatim>\<open>try\<close> body or in the \<^verbatim>\<open>except Exception\<close> branch and stores it in
  \<^verbatim>\<open>task_results\<close>; when the body returns, the handle reports \<^verbatim>\<open>done()\<close>.
  The broadcasts made on the way change the hub only and cannot raise
  (\<^verbatim>\<open>send_message\<close> catches every exception), so they are not threaded through
  these functions.
\<close>

definition start_single_download :: "DownloadOrchestrator \<Rightarrow> string \<Rightarrow> DownloadOrchestrator" where
  "start_single_download orch tid =
     orch\<lparr>active_tasks := (active_tasks orch)
            (tid \<mapsto> \<lparr>task_done = False, task_cancelled = False, cancel_requested = False\<rparr>)\<rparr>"

definition failed_result :: "string \<Rightarrow> exn \<Rightarrow> DownloadResult" where
  "failed_result tid e =
     \<lparr>task_id = tid, status = FAILED, video_file = None, filesize = None,
      error = Some (exn_msg e), error_type = Some (exn_class e)\<rparr>"

definition execute_single_download ::
  "(string \<Rightarrow> exn + (VideoMetadata + PlaylistMetadata))
     \<Rightarrow> (DownloadRequest \<Rightarrow> exn + DownloadResult) \<Rightarrow> string \<Rightarrow> DownloadRequest
     \<Rightarrow> DownloadResult" where
  "execute_single_download extract_metadata proc tid request =
     (case extract_metadata (url request) of
        Inl e \<Rightarrow> failed_result tid e
      | Inr metadata \<Rightarrow>
          (case proc request of
             Inl e \<Rightarrow> failed_result tid e
           | Inr result \<Rightarrow> result\<lparr>task_id := tid\<rparr>))"

definition run_single_download ::
  "(string \<Rightarrow> exn + (VideoMetadata + PlaylistMetadata))
     \<Rightarrow> (DownloadRequest \<Rightarrow> exn + DownloadResult) \<Rightarrow> DownloadOrchestrator \<Rightarrow> string
     \<Rightarrow> DownloadRequest \<Rightarrow> DownloadOrchestrator" where
  "run_single_download extract_metadata proc orch tid request =
     (let result = execute_single_download extract_metadata proc tid request;
          orch' = orch\<lparr>task_results := (task_results orch)(tid \<mapsto> SingleResult result)\<rparr>
      in case active_tasks orch' tid of
           None \<Rightarrow> orch'
         | Some task \<Rightarrow>
             orch'\<lparr>active_tasks := (active_tasks orch')(tid \<mapsto> task\<lparr>task_done := True\<rparr>)\<rparr>)"

section \<open>Properties of the routing strategy\<close>

text \<open>
  C4. The routing strategy is a total function of the quality and the operation.
  An operation of the metadata, info, subtitle, thumbnail or caption family, and any
  operation the function does not know, is routed to yt-dlp whatever the quality. A
  download or stream operation is routed to pytube exactly when the quality is at most
  \<^verbatim>\<open>MAX_QUALITY_DIRECT\<close>; above it the operation is routed to yt-dlp and needs
  rendering, and \<^verbatim>\<open>download_video\<close> then calls the download-and-render handler,
  while at or below the ceiling it calls the pytube handler.
\<close>

theorem determine_processor_routing:
  "(operation \<in> set [''metadata'', ''extract'', ''info'', ''subtitles'', ''thumbnail'', ''captions'']
      \<longrightarrow> determine_processor config q operation = YTDLP) \<and>
   (operation \<notin> set [''metadata'', ''extract'', ''info'', ''download'', ''stream'',
                       ''subtitles'', ''thumbnail'', ''captions'']
      \<longrightarrow> determine_processor config q operation = YTDLP) \<and>
   (operation \<in> set [''download'', ''stream''] \<longrightarrow>
      (determine_processor config q operation = PYTUBE) = (q \<le> MAX_QUALITY_DIRECT config) \<and>
      (MAX_QUALITY_DIRECT config < q \<longrightarrow>
         determine_processor config q operation = YTDLP \<and> requires_rendering config q)) \<and>
   download_video config h request =
     (if quality request \<le> MAX_QUALITY_DIRECT config then pytube_download_video h request
      else ytdlp_download_and_render h request)"
  by (auto simp: determine_processor_def is_quality_direct_download_def requires_rendering_def
        download_video_def)

theorem determine_processor_routing_witness:
  "determine_processor \<lparr>MAX_CONCURRENT_DOWNLOADS = 5, MAX_QUALITY_DIRECT = 720\<rparr> 480 ''download'' = PYTUBE \<and>
   determine_processor \<lparr>MAX_CONCURRENT_DOWNLOADS = 5, MAX_QUALITY_DIRECT = 720\<rparr> 2160 ''stream'' = YTDLP \<and>
   requires_rendering \<lparr>MAX_CONCURRENT_DOWNLOADS = 5, MAX_QUALITY_DIRECT = 720\<rparr> 2160 \<and>
   determine_processor \<lparr>MAX_CONCURRENT_DOWNLOADS = 5, MAX_QUALITY_DIRECT = 720\<rparr> 2160 ''thumbnail'' = YTDLP \<and>
   determine_processor \<lparr>MAX_CONCURRENT_DOWNLOADS = 5, MAX_QUALITY_DIRECT = 720\<rparr> 144 ''transcode'' = YTDLP"
  using
    determine_processor_routing [where operation = "''download''" and q = 480 and config =
      "\<lparr>MAX_CONCURRENT_DOWNLOADS = 5, MAX_QUALITY_DIRECT = 720\<rparr>"]
    determine_processor_routing [where operation = "''stream''" and q = 2160 and config =
      "\<lparr>MAX_CONCURRENT_DOWNLOADS = 5, MAX_QUALITY_DIRECT = 720\<rparr>"]
    determine_processor_routing [where operation = "''thumbnail''" and q = 2160 and config =
      "\<lparr>MAX_CONCURRENT_DOWNLOADS = 5, MAX_QUALITY_DIRECT = 720\<rparr>"]
    determine_processor_routing [where operation = "''transcode''" and q = 144 and config =
      "\<lparr>MAX_CONCURRENT_DOWNLOADS = 5, MAX_QUALITY_DIRECT = 720\<rparr>"]
  by simp

section \<open>Properties of the playlist selection\<close>

lemma window_from_upto:
  "0 \<le> p \<Longrightarrow> p \<le> h + 1 \<Longrightarrow>
   window_from p None (Some h) xs = take (nat (h + 1 - p)) xs"
proof (induction xs arbitrary: p)
  case Nil
  then show ?case by simp
next
  case (Cons x xs)
  show ?case
  proof (cases "p \<le> h")
    case True
    with Cons.prems have "window_from (p + 1) None (Some h) xs = take (nat (h + 1 - (p + 1))) xs"
      by (intro Cons.IH) auto
    moreover from True have "nat (h + 1 - p) = Suc (nat (h + 1 - (p + 1)))" by simp
    ultimately show ?thesis using True by simp
  next
    case False
    with Cons.prems have ph: "p = h + 1" by simp
    have "window_from q None (Some h) ys = []" if "h < q" for q ys
      using that by (induction ys arbitrary: q) auto
    from this [of "p + 1" xs] ph show ?thesis by simp
  qed
qed

lemma window_from_all: "window_from p None None xs = xs"
  by (induction xs arbitrary: p) auto

lemma select_playlist_videos_without_start:
  assumes "start_index request = None"
    and "case end_index request of None \<Rightarrow> True | Some ei \<Rightarrow> 0 \<le> ei"
    and "case max_downloads request of None \<Rightarrow> True | Some md \<Rightarrow> 0 \<le> md"
  shows "select_playlist_videos playlist request = select_playlist_videos_spec playlist request"
proof -
  have w: "slice_to xs (min (int (length xs)) (ei + 1)) = window_from 0 None (Some ei) xs"
    if "0 \<le> ei" for ei and xs :: "VideoMetadata list"
    using that window_from_upto [of 0 ei xs]
    by (simp add: slice_to_def Let_def min_def)
  have t: "slice_to xs md = take (nat md) xs" if "0 \<le> md" for md and xs :: "VideoMetadata list"
    using that by (simp add: slice_to_def Let_def min_def)
  show ?thesis
    using assms w t
    by (auto simp: select_playlist_videos_def select_playlist_videos_spec_def Let_def
          window_from_all split: option.splits)
qed

text \<open>
  C9. The selected list should be the explicit selection, then the window from the start
  index to the end index (inclusive) over that list, then the truncation. The code cuts
  the list at the start index first and then applies the end index to what is left, so
  the end index counts from the start index instead of from the head of the selected
  list: with six videos, start index 2 and end index 3, the code returns the four videos
  at positions 2 to 5, where the window of the positions 2 to 3 holds two.
\<close>

theorem select_playlist_videos_window_divergence:
  "select_playlist_videos
     \<lparr>playlist_title = ''p'',
      videos = map (\<lambda>i. \<lparr>video_id = i, title = i, webpage_url = i\<rparr>)
                 [''a'', ''b'', ''c'', ''d'', ''e'', ''f'']\<rparr>
     \<lparr>pl_url = ''u'', pl_quality = 720, pl_format = ''mp4'', pl_include_audio = True,
      pl_include_subtitles = False, pl_subtitle_languages = [''en''],
      pl_download_thumbnail = False, download_all = True, selected_videos = [],
      start_index = Some 2, end_index = Some 3, max_downloads = None\<rparr>
   = map (\<lambda>i. \<lparr>video_id = i, title = i, webpage_url = i\<rparr>) [''c'', ''d'', ''e'', ''f''] \<and>
   select_playlist_videos_spec
     \<lparr>playlist_title = ''p'',
      videos = map (\<lambda>i. \<lparr>video_id = i, title = i, webpage_url = i\<rparr>)
                 [''a'', ''b'', ''c'', ''d'', ''e'', ''f'']\<rparr>
     \<lparr>pl_url = ''u'', pl_quality = 720, pl_format = ''mp4'', pl_include_audio = True,
      pl_include_subtitles = False, pl_subtitle_languages = [''en''],
      pl_download_thumbnail = False, download_all = True, selected_videos = [],
      start_index = Some 2, end_index = Some 3, max_downloads = None\<rparr>
   = map (\<lambda>i. \<lparr>video_id = i, title = i, webpage_url = i\<rparr>) [''c'', ''d'']"
  by (simp add: select_playlist_videos_def select_playlist_videos_spec_def slice_from_def
        slice_to_def)

section \<open>Properties of the bounded batch executor\<close>

lemma exec_inv_init: "exec_inv n k (exec_init n k)"
  by (simp add: exec_inv_def exec_init_def)

lemma mset_remove1_add: "i \<in> set xs \<Longrightarrow> add_mset i (mset (remove1 i xs)) = mset xs"
  by (induction xs) auto

lemma length_remove1_Suc: "i \<in> set xs \<Longrightarrow> Suc (length (remove1 i xs)) = length xs"
  by (induction xs) auto

lemma exec_inv_step:
  assumes "exec_inv n k s" and "exec_step e s = Some s'"
  shows "exec_inv n k s'"
proof (cases e)
  case (Acquire i)
  with assms(2) have en: "i \<in> set (waiting s)" "0 < sem_value s"
    and s': "s' = s\<lparr>waiting := remove1 i (waiting s), running := i # running s,
                    sem_value := sem_value s - 1\<rparr>"
    by (auto split: if_splits)
  have "mset (remove1 i (waiting s)) + mset (i # running s) + mset (completed s)
        = add_mset i (mset (remove1 i (waiting s))) + mset (running s) + mset (completed s)"
    by simp
  also have "\<dots> = mset (waiting s) + mset (running s) + mset (completed s)"
    by (simp only: mset_remove1_add [OF en(1)])
  finally show ?thesis
    using assms(1) en(2) unfolding exec_inv_def s' by simp
next
  case (Complete i)
  with assms(2) have en: "i \<in> set (running s)"
    and s': "s' = s\<lparr>running := remove1 i (running s), completed := completed s @ [i],
                    sem_value := sem_value s + 1\<rparr>"
    by (auto split: if_splits)
  have "mset (waiting s) + mset (remove1 i (running s)) + mset (completed s @ [i])
        = mset (waiting s) + add_mset i (mset (remove1 i (running s))) + mset (completed s)"
    by simp
  also have "\<dots> = mset (waiting s) + mset (running s) + mset (completed s)"
    by (simp only: mset_remove1_add [OF en])
  finally show ?thesis
    using assms(1) length_remove1_Suc [OF en] unfolding exec_inv_def s' by simp
qed

lemma exec_inv_run:
  "exec_inv n k s \<Longrightarrow> exec_run es s = Some s' \<Longrightarrow> exec_inv n k s'"
proof (induction es arbitrary: s)
  case Nil
  then show ?case by simp
next
  case (Cons e es)
  then show ?case
    by (auto split: option.splits dest: exec_inv_step)
qed

lemma exec_running_bound:
  "exec_run es (exec_init n k) = Some s \<Longrightarrow> length (running s) \<le> k"
  using exec_inv_run [OF exec_inv_init, of es n k s] by (simp add: exec_inv_def)


























lemma download_with_error_isolation_other:
  "request \<noteq> failing \<Longrightarrow>
   download_with_error_isolation (proc(failing := Inl e)) request tid
     = download_with_error_isolation proc request tid"
  by (simp add: download_with_error_isolation_def)





text \<open>
  C2. At most \<open>K\<close> items should be in active execution at any instant. The orchestrator's
  executor keeps this bound on every schedule (\<open>exec_running_bound\<close>): a second
  \<open>Acquire\<close> is refused when the limit is 1. \<^verbatim>\<open>YouTubeProcessor.download_batch\<close>
  does not: its downloads are started by \<^verbatim>\<open>asyncio.create_task\<close> before the semaphore
  exists, so with three URLs and \<^verbatim>\<open>max_concurrent = 1\<close> the loop can have all three
  downloads active while no wrapper has taken the semaphore.
\<close>

theorem download_batch_starts_all_tasks:
  "gather_run [TaskStart 0, TaskStart 1, TaskStart 2]
     (gather_init 3 (nat (max_concurrent_or_default
        \<lparr>MAX_CONCURRENT_DOWNLOADS = 5, MAX_QUALITY_DIRECT = 720\<rparr> (Some 1))))
   = Some \<lparr>scheduled = [], active = [2, 1, 0], finished = [], wrapper_waiting = [0, 1, 2],
           wrapper_holding = [], g_sem_value = 1\<rparr> \<and>
   exec_run [Acquire 0, Acquire 1] (exec_init 3 1) = None"
  by (simp add: gather_init_def exec_init_def max_concurrent_or_default_def upt_rec)

lemma isolation_zero_is_default:
  "download_requests_with_isolation config proc requests tid (Some 0) schedule =
     download_requests_with_isolation config proc requests tid None schedule"
  by (simp add: download_requests_with_isolation_def max_concurrent_or_default_def)

lemma batch_video_requests_max_concurrent:
  "batch_video_requests (r\<lparr>max_concurrent := mc\<rparr>) = batch_video_requests r"
  by (simp add: batch_video_requests_def)

text \<open>
  C10. \<^verbatim>\<open>BatchRequest\<close> accepts \<^verbatim>\<open>max_concurrent = 0\<close>, and the executor then uses
  \<^verbatim>\<open>MAX_CONCURRENT_DOWNLOADS\<close>, exactly as when the field is absent; only a
  non-zero value overrides the default.
\<close>

theorem max_concurrent_zero_falls_back:
  "max_concurrent_or_default config (Some 0) = MAX_CONCURRENT_DOWNLOADS config \<and>
   max_concurrent_or_default config None = MAX_CONCURRENT_DOWNLOADS config \<and>
   (k \<noteq> 0 \<longrightarrow> max_concurrent_or_default config (Some k) = k) \<and>
   BatchRequest_valid (r\<lparr>max_concurrent := Some 0\<rparr>) = BatchRequest_valid r \<and>
   download_requests_with_isolation config proc requests tid (Some 0) schedule =
     download_requests_with_isolation config proc requests tid None schedule \<and>
   execute_batch_download config proc tid (r\<lparr>max_concurrent := Some 0\<rparr>) schedule =
     execute_batch_download config proc tid (r\<lparr>max_concurrent := None\<rparr>) schedule"
proof -
  have a: "max_concurrent_or_default config (Some 0) = MAX_CONCURRENT_DOWNLOADS config"
    and b: "max_concurrent_or_default config None = MAX_CONCURRENT_DOWNLOADS config"
    and c: "k \<noteq> 0 \<longrightarrow> max_concurrent_or_default config (Some k) = k"
    by (simp_all add: max_concurrent_or_default_def)
  have d: "BatchRequest_valid (r\<lparr>max_concurrent := Some 0\<rparr>) = BatchRequest_valid r"
    by (simp add: BatchRequest_valid_def)
  have e: "execute_batch_download config proc tid (r\<lparr>max_concurrent := Some 0\<rparr>) schedule =
     execute_batch_download config proc tid (r\<lparr>max_concurrent := None\<rparr>) schedule"
    unfolding execute_batch_download_def batch_video_requests_max_concurrent
    by (simp add: isolation_zero_is_default cong: option.case_cong sum.case_cong)
  from a b c d e isolation_zero_is_default show ?thesis by blast
qed

theorem max_concurrent_zero_falls_back_witness:
  "(3::int) \<noteq> 0 \<and>
   max_concurrent_or_default
     \<lparr>MAX_CONCURRENT_DOWNLOADS = 5, MAX_QUALITY_DIRECT = 720\<rparr> (Some 3) = 3 \<and>
   max_concurrent_or_default
     \<lparr>MAX_CONCURRENT_DOWNLOADS = 5, MAX_QUALITY_DIRECT = 720\<rparr> (Some 0) = 5 \<and>
   BatchRequest_valid
     \<lparr>urls = [''u1'', ''u2''], b_quality = 720, b_format = ''mp4'', b_include_audio = True,
      b_include_subtitles = False, b_subtitle_languages = [''en''],
      b_download_thumbnail = False, continue_on_error = True, max_concurrent = Some 0\<rparr>"
  using max_concurrent_zero_falls_back [where k = 3 and config =
      "\<lparr>MAX_CONCURRENT_DOWNLOADS = 5, MAX_QUALITY_DIRECT = 720\<rparr>"]
  by (simp add: BatchRequest_valid_def)

section \<open>Properties of the broadcast hub\<close>











lemma disconnect_removes:
  "ws \<in> active_connections m \<Longrightarrow>
   ws \<notin> active_connections (disconnect m ws) \<and> ws \<notin> subscribers_of (disconnect m ws) t"
  by (auto simp: disconnect_def subscribers_of_def split: option.splits)



text \<open>
  C6. After \<^verbatim>\<open>disconnect\<close> the registry should hold no empty subscriber set. The
  code discards the connection from every set (\<open>disconnect_removes\<close>) but keeps the set
  that became empty, where \<^verbatim>\<open>unsubscribe_from_task\<close> deletes it: disconnecting the
  only subscriber of a task leaves the task's entry with the empty set.
\<close>

theorem disconnect_leaves_empty_subscriber_set:
  "task_subscribers
     (disconnect \<lparr>active_connections = {1}, task_subscribers = [''t1'' \<mapsto> {1}],
                  connection_count = 1, sent = (\<lambda>ws. [])\<rparr> 1) ''t1'' = Some {} \<and>
   task_subscribers
     (unsubscribe_from_task \<lparr>active_connections = {1}, task_subscribers = [''t1'' \<mapsto> {1}],
                  connection_count = 1, sent = (\<lambda>ws. [])\<rparr> 1 ''t1'') ''t1'' = None"
  by (simp add: disconnect_def unsubscribe_from_task_def)

section \<open>Properties of the task orchestrator\<close>

lemma get_task_status_not_found:
  "(get_task_status orch tid = None) = (active_tasks orch tid = None \<and> task_results orch tid = None)"
  by (auto simp: get_task_status_def split: option.splits)

text \<open>
  C8. \<^verbatim>\<open>cancel_task\<close> returns \<^verbatim>\<open>True\<close> exactly when the task id has a handle
  in \<^verbatim>\<open>active_tasks\<close> that is not done, and it then requests the cancellation; for
  an unknown id and for a task that is done it returns \<^verbatim>\<open>False\<close> and changes
  nothing. It is a total function: no branch raises, the broadcast included.
\<close>

theorem cancel_task_result:
  "(active_tasks orch tid = None \<longrightarrow> cancel_task send_ok orch hub tid = (False, orch, hub)) \<and>
   (active_tasks orch tid = Some task \<and> task_done task \<longrightarrow>
      cancel_task send_ok orch hub tid = (False, orch, hub)) \<and>
   (active_tasks orch tid = Some task \<and> \<not> task_done task \<longrightarrow>
      fst (cancel_task send_ok orch hub tid) = True \<and>
      active_tasks (fst (snd (cancel_task send_ok orch hub tid))) tid
        = Some (task\<lparr>cancel_requested := True\<rparr>)) \<and>
   fst (cancel_task send_ok orch hub tid)
     = (\<exists>t. active_tasks orch tid = Some t \<and> \<not> task_done t)"
  by (auto simp: cancel_task_def split: option.splits)

theorem cancel_task_result_witness:
  "fst (cancel_task (\<lambda>ws. True)
          \<lparr>active_tasks = [''single_1'' \<mapsto> \<lparr>task_done = False, task_cancelled = False,
                                              cancel_requested = False\<rparr>,
                            ''single_2'' \<mapsto> \<lparr>task_done = True, task_cancelled = False,
                                              cancel_requested = False\<rparr>],
           task_results = Map.empty\<rparr>
          \<lparr>active_connections = {}, task_subscribers = Map.empty, connection_count = 0,
           sent = (\<lambda>ws. [])\<rparr> ''single_1'') = True \<and>
   fst (cancel_task (\<lambda>ws. True)
          \<lparr>active_tasks = [''single_1'' \<mapsto> \<lparr>task_done = False, task_cancelled = False,
                                              cancel_requested = False\<rparr>,
                            ''single_2'' \<mapsto> \<lparr>task_done = True, task_cancelled = False,
                                              cancel_requested = False\<rparr>],
           task_results = Map.empty\<rparr>
          \<lparr>active_connections = {}, task_subscribers = Map.empty, connection_count = 0,
           sent = (\<lambda>ws. [])\<rparr> ''single_2'') = False \<and>
   fst (cancel_task (\<lambda>ws. True)
          \<lparr>active_tasks = [''single_1'' \<mapsto> \<lparr>task_done = False, task_cancelled = False,
                                              cancel_requested = False\<rparr>,
                            ''single_2'' \<mapsto> \<lparr>task_done = True, task_cancelled = False,
                                              cancel_requested = False\<rparr>],
           task_results = Map.empty\<rparr>
          \<lparr>active_connections = {}, task_subscribers = Map.empty, connection_count = 0,
           sent = (\<lambda>ws. [])\<rparr> ''single_3'') = False"
proof -
  let ?h1 = "\<lparr>task_done = False, task_cancelled = False, cancel_requested = False\<rparr>"
  let ?h2 = "\<lparr>task_done = True, task_cancelled = False, cancel_requested = False\<rparr>"
  let ?orch = "\<lparr>active_tasks = [''single_1'' \<mapsto> ?h1, ''single_2'' \<mapsto> ?h2],
           task_results = Map.empty\<rparr>"
  let ?hub = "\<lparr>active_connections = {}, task_subscribers = Map.empty, connection_count = 0,
           sent = (\<lambda>ws. [])\<rparr>"
  have a1: "active_tasks ?orch ''single_1'' = Some ?h1" and d1: "\<not> task_done ?h1"
    and a2: "active_tasks ?orch ''single_2'' = Some ?h2" and d2: "task_done ?h2"
    and a3: "active_tasks ?orch ''single_3'' = None"
    by simp_all
  from cancel_task_result [where orch = ?orch and tid = "''single_1''" and task = ?h1
      and send_ok = "\<lambda>ws. True" and hub = ?hub] a1 d1
  have "fst (cancel_task (\<lambda>ws. True) ?orch ?hub ''single_1'') = True" by blast
  moreover from cancel_task_result [where orch = ?orch and tid = "''single_2''" and task = ?h2
      and send_ok = "\<lambda>ws. True" and hub = ?hub] a2 d2
  have "fst (cancel_task (\<lambda>ws. True) ?orch ?hub ''single_2'') = False" by simp
  moreover from cancel_task_result [where orch = ?orch and tid = "''single_3''"
      and send_ok = "\<lambda>ws. True" and hub = ?hub] a3
  have "fst (cancel_task (\<lambda>ws. True) ?orch ?hub ''single_3'') = False" by simp
  ultimately show ?thesis by blast
qed

text \<open>
  C5. The status query should show the terminal status and the recorded result of a
  finished task, so that a failure is visible. \<^verbatim>\<open>get_task_status\<close> looks at
  \<^verbatim>\<open>active_tasks\<close> first, and a finished task keeps its handle there until
  \<^verbatim>\<open>cleanup_completed_tasks\<close> runs: for a single download whose extraction
  raised, the query answers \<^verbatim>\<open>completed\<close>, done, not cancelled, and no result,
  although the \<^verbatim>\<open>FAILED\<close> result is stored in \<^verbatim>\<open>task_results\<close>.
\<close>

theorem failed_task_status_hides_result:
  "get_task_status
     (run_single_download (\<lambda>u. Inl (Exn ''ExtractionError'' ''video unavailable''))
        (\<lambda>r. Inl (Exn ''DownloadError'' ''unreachable''))
        (start_single_download \<lparr>active_tasks = Map.empty, task_results = Map.empty\<rparr>
           ''single_1'')
        ''single_1''
        \<lparr>url = ''u1'', quality = 720, format = ''mp4'', include_audio = True,
         include_subtitles = False, subtitle_languages = [''en''],
         download_thumbnail = False, custom_filename = None\<rparr>)
     ''single_1''
   = Some \<lparr>st_task_id = ''single_1'', st_status = ''completed'', st_done = True,
           st_cancelled = Some False, st_result = None\<rparr> \<and>
   task_results
     (run_single_download (\<lambda>u. Inl (Exn ''ExtractionError'' ''video unavailable''))
        (\<lambda>r. Inl (Exn ''DownloadError'' ''unreachable''))
        (start_single_download \<lparr>active_tasks = Map.empty, task_results = Map.empty\<rparr>
           ''single_1'')
        ''single_1''
        \<lparr>url = ''u1'', quality = 720, format = ''mp4'', include_audio = True,
         include_subtitles = False, subtitle_languages = [''en''],
         download_thumbnail = False, custom_filename = None\<rparr>)
     ''single_1''
   = Some (SingleResult \<lparr>task_id = ''single_1'', status = FAILED, video_file = None,
             filesize = None, error = Some ''video unavailable'',
             error_type = Some ''ExtractionError''\<rparr>)"
  by (simp add: get_task_status_def run_single_download_def start_single_download_def
        execute_single_download_def failed_result_def Let_def)

end
